theory Spec2Isabelle
  imports Complex_Main
begin

section \<open>The measurement engine of App.tsx\<close>

text \<open>
  The component keeps its measurements in React state variables and in refs, and updates
  them from three handlers (\<open>resetAll\<close>, \<open>start\<close>, \<open>stop\<close>) and from the callback that
  \<open>start\<close> registers with the location source. The model is explicit state passing over
  one record holding every state variable and ref, and the callbacks the location source
  holds.

  A JavaScript \<open>number\<close> is a double. The model computes with real numbers and keeps
  the two effects of double arithmetic that change more than the last digits of a result.
  The radicand of \<open>haversineMeters\<close> carries its rounding error, a parameter of the
  model: where the exact radicand is 1, rounding decides whether \<open>Math.sqrt\<close> gets a
  negative argument. And a number that can be NaN is an optional real, \<open>None\<close> being
  NaN: the distance of two coordinates, the accumulated distance, the average speed.
  A value of type \<open>number | null\<close> is an option as well.
\<close>

subsection \<open>Utilities\<close>

text \<open>\<open>KMH\<close>: metres per second to km/h; a missing speed counts as 0.\<close>

definition KMH :: "real option \<Rightarrow> real" where
  "KMH mps = (case mps of None \<Rightarrow> 0 | Some m \<Rightarrow> m) * 3.6"

definition clamp :: "real \<Rightarrow> real \<Rightarrow> real \<Rightarrow> real" where
  "clamp v a b = max a (min b v)"

text \<open>
  \<open>Math.atan2\<close> on real numbers, first argument the ordinate. The signed zeros of the
  floating-point function have no counterpart here; zero stands for \<open>+0\<close>.
\<close>

definition atan2 :: "real \<Rightarrow> real \<Rightarrow> real" where
  "atan2 b a =
     (if 0 < a then arctan (b / a)
      else if a < 0 then (if 0 \<le> b then arctan (b / a) + pi else arctan (b / a) - pi)
      else if 0 < b then pi / 2
      else if b < 0 then - (pi / 2)
      else 0)"

text \<open>\<open>Math.sqrt\<close>: NaN for a negative argument.\<close>

definition Math_sqrt :: "real \<Rightarrow> real option" where
  "Math_sqrt x = (if x < 0 then None else Some (sqrt x))"

text \<open>The sum of two numbers either of which can be NaN.\<close>

definition plusNaN :: "real option \<Rightarrow> real option \<Rightarrow> real option" where
  "plusNaN u v =
     (case u of
        None \<Rightarrow> None
      | Some a \<Rightarrow> (case v of None \<Rightarrow> None | Some b \<Rightarrow> Some (a + b)))"

definition toRad :: "real \<Rightarrow> real" where
  "toRad d = (d * pi) / 180"

text \<open>
  The constant \<open>a\<close> of \<open>haversineMeters\<close>: the value of its expression plus the
  rounding error \<open>err\<close> that the double arithmetic of the runtime makes on these four
  arguments. Nothing is assumed of \<open>err\<close>; \<open>noRounding\<close> is exact arithmetic.
\<close>

definition haversineA ::
  "(real \<Rightarrow> real \<Rightarrow> real \<Rightarrow> real \<Rightarrow> real) \<Rightarrow> real \<Rightarrow> real \<Rightarrow> real \<Rightarrow> real \<Rightarrow> real" where
  "haversineA err lat1 lon1 lat2 lon2 =
     (let dLat = toRad (lat2 - lat1);
          dLon = toRad (lon2 - lon1)
      in (sin (dLat / 2))\<^sup>2 + cos (toRad lat1) * cos (toRad lat2) * (sin (dLon / 2))\<^sup>2
         + err lat1 lon1 lat2 lon2)"

definition noRounding :: "real \<Rightarrow> real \<Rightarrow> real \<Rightarrow> real \<Rightarrow> real" where
  "noRounding lat1 lon1 lat2 lon2 = 0"

text \<open>
  The distance is NaN as soon as one of the two square roots is: \<open>Math.atan2\<close> and the
  products hand NaN on.
\<close>

definition haversineMeters ::
  "(real \<Rightarrow> real \<Rightarrow> real \<Rightarrow> real \<Rightarrow> real) \<Rightarrow> real \<Rightarrow> real \<Rightarrow> real \<Rightarrow> real \<Rightarrow> real option" where
  "haversineMeters err lat1 lon1 lat2 lon2 =
     (let R = 6371000;
          a = haversineA err lat1 lon1 lat2 lon2
      in case Math_sqrt a of
           None \<Rightarrow> None
         | Some p \<Rightarrow>
             (case Math_sqrt (1 - a) of
                None \<Rightarrow> None
              | Some q \<Rightarrow> Some (R * (2 * atan2 p q))))"

subsection \<open>The smoothing filter\<close>

record EmaFilter =
  alpha :: real
  y :: "real option"

text \<open>The constructor, and its default argument.\<close>

definition new_EmaFilter :: "real \<Rightarrow> EmaFilter" where
  "new_EmaFilter a = \<lparr>alpha = clamp a 0.05 0.9, y = None\<rparr>"

definition default_EmaFilter :: EmaFilter where
  "default_EmaFilter = new_EmaFilter 0.25"

text \<open>\<open>next\<close> stores the new value and returns it: the result is the pair of both.\<close>

definition ema_next :: "EmaFilter \<Rightarrow> real \<Rightarrow> real \<times> EmaFilter" where
  "ema_next f x =
     (let v = (case y f of None \<Rightarrow> x | Some prev \<Rightarrow> alpha f * x + (1 - alpha f) * prev)
      in (v, f\<lparr>y := Some v\<rparr>))"

definition ema_reset :: "EmaFilter \<Rightarrow> EmaFilter" where
  "ema_reset f = f\<lparr>y := None\<rparr>"

subsection \<open>Parameters and types\<close>

definition SPEED_THRESHOLDS :: "real list" where
  "SPEED_THRESHOLDS = [40, 60, 80, 100, 120, 140, 160, 180, 200]"

definition STOP_KMH :: real where
  "STOP_KMH = 1.0"

definition MOVING_KMH :: real where
  "MOVING_KMH = 3.0"

record Split =
  target :: real
  t :: "real option"

text \<open>The table every handler installs: one unset entry per threshold.\<close>

definition freshSplits :: "Split list" where
  "freshSplits = map (\<lambda>v. \<lparr>target = v, t = None\<rparr>) SPEED_THRESHOLDS"

record LocationObjectCoords =
  latitude :: real
  longitude :: real
  speed :: "real option"
  accuracy :: "real option"
  satellitesUsed :: "real option"

record LocationObject =
  coords :: LocationObjectCoords
  timestamp :: real

record FixInfo =
  acc :: "real option"
  sat :: "real option"

text \<open>
  The callback is a closure created inside \<open>start\<close>. It reads \<open>armed\<close>, \<open>t0\<close> and
  \<open>distanceM\<close> as plain variables: they are the constants of the render in which \<open>start\<close>
  was created, and no state setter changes them afterwards. The state setters called with
  an updater function, and the refs \<open>ema\<close> and \<open>lastPoint\<close>, act on the live state.
\<close>

record Closure =
  cap_armed :: bool
  cap_t0 :: "real option"
  cap_distanceM :: "real option"

text \<open>
  The state variables and refs of the component, followed by what the location source and
  the pending promises of \<open>start\<close> hold. A call of \<open>watchPositionAsync\<close> is a watch with
  a number of its own. \<open>watchers\<close> lists the watches that were registered and not removed,
  each with the closure of its callback; \<open>pending\<close> lists those whose promise has not
  resolved yet, so that \<open>start\<close> has not stored their subscription; \<open>subRef\<close> is the
  subscription stored in the ref, by the number of its watch.
\<close>

record AppState =
  hasPerm :: "bool option"
  running :: bool
  armed :: bool
  t0 :: "real option"
  splits :: "Split list"
  maxKmh :: real
  avgKmh :: "real option"
  currKmh :: real
  distanceM :: "real option"
  elapsedMs :: real
  fixInfo :: "FixInfo option"
  lastPoint :: "LocationObjectCoords option"
  ema :: EmaFilter
  subRef :: "nat option"
  watchers :: "(nat \<times> Closure) list"
  pending :: "nat list"
  nextWatch :: nat

definition initialState :: AppState where
  "initialState =
     \<lparr>hasPerm = None, running = False, armed = False, t0 = None, splits = freshSplits,
      maxKmh = 0, avgKmh = Some 0, currKmh = 0, distanceM = Some 0, elapsedMs = 0,
      fixInfo = None, lastPoint = None, ema = default_EmaFilter, subRef = None,
      watchers = [], pending = [], nextWatch = 0\<rparr>"

subsection \<open>Control\<close>

text \<open>\<open>subRef.current?.remove()\<close>: the stored subscription, if there is one, is removed.\<close>

definition removeStored :: "nat option \<Rightarrow> (nat \<times> Closure) list \<Rightarrow> (nat \<times> Closure) list" where
  "removeStored r ws = (case r of None \<Rightarrow> ws | Some i \<Rightarrow> filter (\<lambda>w. fst w \<noteq> i) ws)"

definition resetAll :: "AppState \<Rightarrow> AppState" where
  "resetAll st =
     st\<lparr>running := False, armed := False, t0 := None,
        splits := freshSplits,
        maxKmh := 0, avgKmh := Some 0, currKmh := 0, distanceM := Some 0, elapsedMs := 0,
        ema := ema_reset (ema st),
        lastPoint := None,
        watchers := removeStored (subRef st) (watchers st),
        subRef := None\<rparr>"

text \<open>
  \<open>start\<close> returns at once unless the permission is granted (\<open>!hasPerm\<close> holds for
  \<open>null\<close> and for \<open>false\<close>). Otherwise it queues the state updates and calls
  \<open>watchPositionAsync\<close> with the callback, whose closure holds the values of \<open>armed\<close>,
  \<open>t0\<close> and \<open>distanceM\<close> that \<open>start\<close> itself sees: those of the state before its own
  updates. There \<open>start\<close> waits: the watch is registered and its promise is pending.
\<close>

definition start :: "AppState \<Rightarrow> AppState" where
  "start st =
     (if hasPerm st \<noteq> Some True then st
      else st\<lparr>armed := True, running := True,
              splits := freshSplits,
              maxKmh := 0, avgKmh := Some 0, currKmh := 0, distanceM := Some 0,
              elapsedMs := 0,
              ema := ema_reset (ema st), lastPoint := None, t0 := None,
              watchers := watchers st @
                [(nextWatch st, \<lparr>cap_armed = armed st, cap_t0 = t0 st,
                                  cap_distanceM = distanceM st\<rparr>)],
              pending := pending st @ [nextWatch st],
              nextWatch := Suc (nextWatch st)\<rparr>)"

text \<open>
  The rest of \<open>start\<close>, run when the promise of watch \<open>i\<close> resolves: the subscription
  goes into the ref, whatever the ref held before and whatever was pressed meanwhile.
\<close>

definition startResumed :: "nat \<Rightarrow> AppState \<Rightarrow> AppState" where
  "startResumed i st =
     (if i \<in> set (pending st)
      then st\<lparr>subRef := Some i, pending := removeAll i (pending st)\<rparr>
      else st)"

definition stop :: "AppState \<Rightarrow> AppState" where
  "stop st =
     st\<lparr>watchers := removeStored (subRef st) (watchers st),
        subRef := None, running := False, armed := False\<rparr>"

subsection \<open>The location callback\<close>

text \<open>
  The launch logic of the callback: the value of \<open>t0\<close> after it, \<open>cur\<close> being the
  value before. The tests read the closure.
\<close>

definition launch :: "Closure \<Rightarrow> real \<Rightarrow> real \<Rightarrow> real option \<Rightarrow> real option" where
  "launch env speedKmh now cur =
     (if cap_armed env \<and> cap_t0 env = None then
        (if speedKmh \<le> STOP_KMH then cur
         else if speedKmh \<ge> MOVING_KMH then Some now
         else cur)
      else cur)"

text \<open>The updater passed to \<open>setSplits\<close>, as a function of the \<open>t0\<close> it reads.\<close>

definition observe :: "Split list \<Rightarrow> real option \<Rightarrow> real \<Rightarrow> real \<Rightarrow> Split list" where
  "observe prev origin now speedKmh =
     (case origin of
        None \<Rightarrow> prev
      | Some T \<Rightarrow>
          (let dt = now - T
           in map (\<lambda>s. if t s \<noteq> None then s
                        else if speedKmh \<ge> target s then s\<lparr>t := Some dt\<rparr>
                        else s) prev))"

text \<open>
  The updater passed to \<open>setAvgKmh\<close>, as a function of the \<open>t0\<close> and \<open>distanceM\<close> it
  reads. A distance that is NaN gives an average that is NaN.
\<close>

definition avgUpdater :: "real option \<Rightarrow> real option \<Rightarrow> real \<Rightarrow> real option \<Rightarrow> real option" where
  "avgUpdater origin dM now cur =
     (case origin of
        None \<Rightarrow> cur
      | Some T \<Rightarrow>
          (let secs = (now - T) / 1000
           in if secs \<le> 0 then Some 0
              else (let km = map_option (\<lambda>d. d / 1000) dM
                    in map_option (\<lambda>k. k / (secs / 3600)) km)))"

text \<open>
  The callback registered by \<open>start\<close>, run on one location object: \<open>env\<close> is its closure,
  \<open>st\<close> the live state, \<open>err\<close> the rounding of the runtime in \<open>haversineMeters\<close>. The
  timestamp of a location object is taken to be a number.
\<close>

definition onLocation ::
  "(real \<Rightarrow> real \<Rightarrow> real \<Rightarrow> real \<Rightarrow> real) \<Rightarrow> Closure \<Rightarrow> LocationObject \<Rightarrow> AppState \<Rightarrow> AppState" where
  "onLocation err env loc st =
     (let c = coords loc;
          speedKmhRaw = KMH (speed c);
          (speedKmh, f) = ema_next (ema st) speedKmhRaw;
          now = timestamp loc
      in st\<lparr>ema := f,
            fixInfo := Some \<lparr>acc = accuracy c, sat = satellitesUsed c\<rparr>,
            currKmh := speedKmh,
            maxKmh := max (maxKmh st) speedKmh,
            distanceM :=
              (case lastPoint st of
                 None \<Rightarrow> distanceM st
               | Some p \<Rightarrow> plusNaN (distanceM st)
                   (haversineMeters err (latitude p) (longitude p) (latitude c) (longitude c))),
            lastPoint := Some c,
            t0 := launch env speedKmh now (t0 st),
            splits := observe (splits st) (cap_t0 env) now speedKmh,
            elapsedMs := (case cap_t0 env of None \<Rightarrow> elapsedMs st | Some T \<Rightarrow> now - T),
            avgKmh := avgUpdater (cap_t0 env) (cap_distanceM env) now (avgKmh st)\<rparr>)"

text \<open>
  The location source hands a location object of watch \<open>i\<close> to the callback of that
  watch, as long as the watch has not been removed.
\<close>

definition deliver ::
  "(real \<Rightarrow> real \<Rightarrow> real \<Rightarrow> real \<Rightarrow> real) \<Rightarrow> nat \<Rightarrow> LocationObject \<Rightarrow> AppState \<Rightarrow> AppState" where
  "deliver err i loc st =
     (case map_of (watchers st) i of
        None \<Rightarrow> st
      | Some env \<Rightarrow> onLocation err env loc st)"

text \<open>Any sequence of location objects, each with the watch it belongs to.\<close>

definition deliverAll ::
  "(real \<Rightarrow> real \<Rightarrow> real \<Rightarrow> real \<Rightarrow> real) \<Rightarrow> AppState \<Rightarrow> (nat \<times> LocationObject) list \<Rightarrow> AppState" where
  "deliverAll err st locs = foldl (\<lambda>s f. deliver err (fst f) (snd f) s) st locs"

subsection \<open>What the user interface lets happen\<close>

text \<open>
  The permission request answers once, after mounting. The two buttons are rendered only
  when the permission is granted; the first one calls \<open>stop\<close> while \<open>running\<close> holds and
  \<open>start\<close> otherwise, the second one calls \<open>resetAll\<close>. The promise of a watch resolves
  at some time after \<open>start\<close> called for it, and location objects of a watch arrive at
  any time.
\<close>

datatype Event =
  PermResult bool | PressStartStop | PressReset | WatchResolved nat | Fix nat LocationObject

fun step :: "(real \<Rightarrow> real \<Rightarrow> real \<Rightarrow> real \<Rightarrow> real) \<Rightarrow> AppState \<Rightarrow> Event \<Rightarrow> AppState" where
  "step err st (PermResult g) = (if hasPerm st = None then st\<lparr>hasPerm := Some g\<rparr> else st)"
| "step err st PressStartStop =
     (if hasPerm st \<noteq> Some True then st
      else if running st then stop st else start st)"
| "step err st PressReset = (if hasPerm st \<noteq> Some True then st else resetAll st)"
| "step err st (WatchResolved i) = startResumed i st"
| "step err st (Fix i loc) = deliver err i loc st"

definition run :: "(real \<Rightarrow> real \<Rightarrow> real \<Rightarrow> real \<Rightarrow> real) \<Rightarrow> Event list \<Rightarrow> AppState" where
  "run err evs = foldl (step err) initialState evs"

text \<open>
  The trace invariant of the user interface: \<open>start\<close> is only ever called while
  \<open>running\<close>, and with it \<open>armed\<close>, is false, so every closure it creates holds
  \<open>armed = false\<close> and \<open>t0 = null\<close>.
\<close>

definition traceInv :: "AppState \<Rightarrow> bool" where
  "traceInv st \<longleftrightarrow>
     t0 st = None \<and> armed st = running st \<and> splits st = freshSplits
     \<and> avgKmh st = Some 0 \<and> elapsedMs st = 0
     \<and> list_all (\<lambda>w. \<not> cap_armed (snd w) \<and> cap_t0 (snd w) = None) (watchers st)
     \<and> (hasPerm st \<noteq> Some True \<longrightarrow>
           maxKmh st = 0 \<and> currKmh st = 0 \<and> distanceM st = Some 0 \<and> lastPoint st = None
           \<and> y (ema st) = None \<and> watchers st = [])"

subsection \<open>Sample data\<close>

text \<open>A location object with the given latitude, longitude, speed (m/s) and timestamp (ms).\<close>

definition mkFix :: "real \<Rightarrow> real \<Rightarrow> real \<Rightarrow> real \<Rightarrow> LocationObject" where
  "mkFix lat lon mps ts =
     \<lparr>coords = \<lparr>latitude = lat, longitude = lon, speed = Some mps,
                accuracy = None, satellitesUsed = None\<rparr>,
      timestamp = ts\<rparr>"

text \<open>
  A rounding that is exact except from (-12, -180) to (12, 0), where doubles give the
  radicand 1.0000000000000002, that is 1 + 2^-52, for the exact value 1.
\<close>

definition antipodalRounding :: "real \<Rightarrow> real \<Rightarrow> real \<Rightarrow> real \<Rightarrow> real" where
  "antipodalRounding lat1 lon1 lat2 lon2 =
     (if lat1 = - 12 \<and> lon1 = - 180 \<and> lat2 = 12 \<and> lon2 = 0 then 1 / 2 ^ 52 else 0)"

section \<open>Properties\<close>

subsection \<open>The distance between two coordinates\<close>

text \<open>
  In exact arithmetic the quantity under the square roots is a convex combination of two
  squares, so it lies between 0 and 1 for all arguments.
\<close>

lemma toRad_diff: "toRad (a - b) = toRad a - toRad b"
  by (simp add: toRad_def algebra_simps diff_divide_distrib)

lemma half_angle_identity:
  fixes p q :: real
  shows "(sin ((q - p) / 2))\<^sup>2 + cos p * cos q = (cos ((p + q) / 2))\<^sup>2"
proof -
  have "cos (q - p) = cos (2 * ((q - p) / 2))"
    by (rule arg_cong [where f = cos]) simp
  also have "\<dots> = 1 - 2 * (sin ((q - p) / 2))\<^sup>2"
    by (rule cos_double_sin)
  finally have s: "(sin ((q - p) / 2))\<^sup>2 = (1 - cos (q - p)) / 2"
    by simp
  have "cos (p + q) = cos (2 * ((p + q) / 2))"
    by (rule arg_cong [where f = cos]) simp
  also have "\<dots> = 2 * (cos ((p + q) / 2))\<^sup>2 - 1"
    by (rule cos_double_cos)
  finally have c: "(cos ((p + q) / 2))\<^sup>2 = (1 + cos (p + q)) / 2"
    by simp
  show ?thesis
    unfolding s c by (simp add: cos_add cos_diff field_simps)
qed

lemma haversineA_convex:
  "haversineA noRounding lat1 lon1 lat2 lon2 =
     (1 - (sin (toRad (lon2 - lon1) / 2))\<^sup>2) * (sin ((toRad lat2 - toRad lat1) / 2))\<^sup>2
     + (sin (toRad (lon2 - lon1) / 2))\<^sup>2 * (cos ((toRad lat1 + toRad lat2) / 2))\<^sup>2"
proof -
  have "(cos ((toRad lat1 + toRad lat2) / 2))\<^sup>2 =
        (sin ((toRad lat2 - toRad lat1) / 2))\<^sup>2 + cos (toRad lat1) * cos (toRad lat2)"
    by (rule half_angle_identity [symmetric])
  then show ?thesis
    by (simp add: haversineA_def noRounding_def Let_def toRad_diff algebra_simps)
qed

lemma sin_sq_le_one: "(sin (x::real))\<^sup>2 \<le> 1"
  using abs_sin_le_one [of x] by (simp add: abs_square_le_1)

lemma cos_sq_le_one: "(cos (x::real))\<^sup>2 \<le> 1"
  using abs_cos_le_one [of x] by (simp add: abs_square_le_1)

lemma convex_unit:
  fixes h u v :: real
  assumes "0 \<le> h" "h \<le> 1" "0 \<le> u" "u \<le> 1" "0 \<le> v" "v \<le> 1"
  shows "0 \<le> (1 - h) * u + h * v" and "(1 - h) * u + h * v \<le> 1"
proof -
  show "0 \<le> (1 - h) * u + h * v" using assms by simp
  have "(1 - h) * u \<le> (1 - h) * 1" using assms by (intro mult_left_mono) auto
  moreover have "h * v \<le> h * 1" using assms by (intro mult_left_mono) auto
  ultimately show "(1 - h) * u + h * v \<le> 1" by simp
qed

lemma haversineA_ge0: "0 \<le> haversineA noRounding lat1 lon1 lat2 lon2"
  unfolding haversineA_convex
  by (rule convex_unit(1)) (simp_all add: sin_sq_le_one cos_sq_le_one)

lemma haversineA_le1: "haversineA noRounding lat1 lon1 lat2 lon2 \<le> 1"
  unfolding haversineA_convex
  by (rule convex_unit(2)) (simp_all add: sin_sq_le_one cos_sq_le_one)

lemma haversineA_sym:
  "haversineA noRounding lat1 lon1 lat2 lon2 = haversineA noRounding lat2 lon2 lat1 lon1"
proof -
  have "\<And>a b. (sin (toRad (a - b) / 2))\<^sup>2 = (sin (toRad (b - a) / 2))\<^sup>2"
  proof -
    fix a b :: real
    have "toRad (a - b) / 2 = - (toRad (b - a) / 2)" by (simp add: toRad_def field_simps)
    then show "(sin (toRad (a - b) / 2))\<^sup>2 = (sin (toRad (b - a) / 2))\<^sup>2"
      by (metis power2_minus sin_minus)
  qed
  then show ?thesis by (simp add: haversineA_def noRounding_def Let_def mult.commute)
qed

lemma haversineA_self: "haversineA noRounding lat lon lat lon = 0"
  by (simp add: haversineA_def noRounding_def toRad_def)

lemma haversineA_rounded:
  "haversineA err lat1 lon1 lat2 lon2 =
     haversineA noRounding lat1 lon1 lat2 lon2 + err lat1 lon1 lat2 lon2"
  by (simp add: haversineA_def noRounding_def Let_def)

lemma atan2_nonneg: "0 \<le> b \<Longrightarrow> 0 \<le> a \<Longrightarrow> 0 \<le> atan2 b a"
  by (auto simp: atan2_def)

lemma atan2_pos: "0 < b \<Longrightarrow> 0 \<le> a \<Longrightarrow> 0 < atan2 b a"
  by (auto simp: atan2_def)

text \<open>
  The distance is a number exactly when the radicand, as computed, lies between 0 and 1,
  and a distance that is a number is not negative, whatever the rounding.
\<close>

lemma haversineMeters_number:
  assumes "0 \<le> haversineA err lat1 lon1 lat2 lon2"
    and "haversineA err lat1 lon1 lat2 lon2 \<le> 1"
  shows "haversineMeters err lat1 lon1 lat2 lon2 =
     Some (6371000 * (2 * atan2 (sqrt (haversineA err lat1 lon1 lat2 lon2))
                                (sqrt (1 - haversineA err lat1 lon1 lat2 lon2))))"
  using assms by (simp add: haversineMeters_def Math_sqrt_def Let_def)

lemma haversineMeters_NaN:
  assumes "haversineA err lat1 lon1 lat2 lon2 < 0 \<or> 1 < haversineA err lat1 lon1 lat2 lon2"
  shows "haversineMeters err lat1 lon1 lat2 lon2 = None"
  using assms by (auto simp: haversineMeters_def Math_sqrt_def Let_def)

lemma haversineMeters_nonneg:
  assumes "haversineMeters err lat1 lon1 lat2 lon2 = Some d"
  shows "0 \<le> d"
proof -
  let ?a = "haversineA err lat1 lon1 lat2 lon2"
  from assms have a: "0 \<le> ?a" "?a \<le> 1"
    by (auto simp: haversineMeters_def Math_sqrt_def Let_def split: if_splits)
  then have "d = 6371000 * (2 * atan2 (sqrt ?a) (sqrt (1 - ?a)))"
    using assms haversineMeters_number [OF a] by simp
  moreover have "0 \<le> atan2 (sqrt ?a) (sqrt (1 - ?a))"
    by (rule atan2_nonneg) (simp_all add: a)
  ultimately show ?thesis by simp
qed

text \<open>In exact arithmetic the distance is a number, symmetric, and 0 from a point to itself.\<close>

lemma haversineMeters_exact:
  "(\<exists>d. haversineMeters noRounding lat1 lon1 lat2 lon2 = Some d \<and> 0 \<le> d)
   \<and> haversineMeters noRounding lat1 lon1 lat2 lon2 = haversineMeters noRounding lat2 lon2 lat1 lon1
   \<and> haversineMeters noRounding lat1 lon1 lat1 lon1 = Some 0"
proof (intro conjI)
  have n: "haversineMeters noRounding lat1 lon1 lat2 lon2 =
      Some (6371000 * (2 * atan2 (sqrt (haversineA noRounding lat1 lon1 lat2 lon2))
                                 (sqrt (1 - haversineA noRounding lat1 lon1 lat2 lon2))))"
    by (rule haversineMeters_number) (rule haversineA_ge0 haversineA_le1)+
  with haversineMeters_nonneg [OF n]
  show "\<exists>d. haversineMeters noRounding lat1 lon1 lat2 lon2 = Some d \<and> 0 \<le> d"
    by blast
  show "haversineMeters noRounding lat1 lon1 lat2 lon2 = haversineMeters noRounding lat2 lon2 lat1 lon1"
    unfolding haversineMeters_def haversineA_sym [of lat1 lon1 lat2 lon2] ..
  show "haversineMeters noRounding lat1 lon1 lat1 lon1 = Some 0"
    by (simp add: haversineMeters_def Math_sqrt_def Let_def haversineA_self atan2_def)
qed

lemma haversineMeters_exact_pos:
  assumes "0 < haversineA noRounding lat1 lon1 lat2 lon2"
  shows "\<exists>d. haversineMeters noRounding lat1 lon1 lat2 lon2 = Some d \<and> 0 < d"
proof -
  let ?a = "haversineA noRounding lat1 lon1 lat2 lon2"
  have "0 < atan2 (sqrt ?a) (sqrt (1 - ?a))"
    by (rule atan2_pos) (simp_all add: assms haversineA_le1)
  moreover have "haversineMeters noRounding lat1 lon1 lat2 lon2 =
      Some (6371000 * (2 * atan2 (sqrt ?a) (sqrt (1 - ?a))))"
    by (rule haversineMeters_number) (rule haversineA_ge0 haversineA_le1)+
  ultimately show ?thesis by simp
qed

lemma equator_leg_pos:
  assumes "0 < lon2 - lon1" and "lon2 - lon1 < 360"
  shows "\<exists>d. haversineMeters noRounding 0 lon1 0 lon2 = Some d \<and> 0 < d"
proof (rule haversineMeters_exact_pos)
  have "0 < toRad (lon2 - lon1) / 2" using assms by (simp add: toRad_def)
  moreover have "toRad (lon2 - lon1) / 2 < pi" using assms by (simp add: toRad_def)
  ultimately have "0 < sin (toRad (lon2 - lon1) / 2)" by (rule sin_gt_zero)
  then show "0 < haversineA noRounding 0 lon1 0 lon2"
    by (simp add: haversineA_def noRounding_def Let_def toRad_def)
qed

text \<open>
  From (-12, -180) to (12, 0), two valid coordinates opposite each other on the globe, the
  exact radicand is 1.
\<close>

lemma haversineA_antipode: "haversineA noRounding (- 12) (- 180) 12 0 = 1"
proof -
  have h: "toRad 180 / 2 = pi / 2" by (simp add: toRad_def)
  have d: "toRad 24 / 2 = toRad 12" by (simp add: toRad_def)
  have c: "cos (toRad (- 12)) = cos (toRad 12)"
    using cos_minus [of "toRad 12"] by (simp add: toRad_def)
  have "haversineA noRounding (- 12) (- 180) 12 0 =
        (sin (toRad 24 / 2))\<^sup>2 + cos (toRad (- 12)) * cos (toRad 12) * (sin (toRad 180 / 2))\<^sup>2"
    by (simp add: haversineA_def noRounding_def Let_def)
  also have "\<dots> = (sin (toRad 12))\<^sup>2 + (cos (toRad 12))\<^sup>2"
    unfolding h d c by (simp add: power2_eq_square)
  finally show ?thesis by simp
qed

text \<open>
  Claim C8 fails on the code. Between the valid coordinates (-12, -180) and (12, 0) exact
  arithmetic gives half the circumference, \<open>6371000 * pi\<close> metres. As the exact radicand
  is 1 there, any rounding of it upwards makes \<open>1 - a\<close> negative, its square root NaN
  and the distance NaN, which is neither at least 0 nor equal to the distance the other
  way round. Doubles round it upwards, to 1.0000000000000002.
\<close>

theorem haversineMeters_NaN_at_antipode:
  assumes "0 < err (- 12) (- 180) 12 0"
  shows "haversineMeters err (- 12) (- 180) 12 0 = None
         \<and> haversineMeters noRounding (- 12) (- 180) 12 0 = Some (6371000 * pi)"
proof
  have "1 < haversineA err (- 12) (- 180) 12 0"
    using assms by (simp add: haversineA_rounded [of err] haversineA_antipode)
  then show "haversineMeters err (- 12) (- 180) 12 0 = None"
    by (simp add: haversineMeters_NaN)
  show "haversineMeters noRounding (- 12) (- 180) 12 0 = Some (6371000 * pi)"
    by (simp add: haversineMeters_def Math_sqrt_def Let_def haversineA_antipode atan2_def)
qed

theorem haversineMeters_NaN_at_antipode_witness:
  "0 < antipodalRounding (- 12) (- 180) 12 0
   \<and> haversineMeters antipodalRounding (- 12) (- 180) 12 0 = None"
  using haversineMeters_NaN_at_antipode [where err = antipodalRounding]
  by (simp add: antipodalRounding_def)

subsection \<open>The smoothing filter\<close>

lemma ema_next_alpha: "alpha (snd (ema_next f x)) = alpha f"
  by (simp add: ema_next_def Let_def)

lemma ema_next_stored: "y (snd (ema_next f x)) = Some (fst (ema_next f x))"
  by (simp add: ema_next_def Let_def)

text \<open>
  Claim C7. \<open>next(x)\<close> returns \<open>x\<close> and stores it when the filter holds no value;
  otherwise it returns and stores \<open>alpha * x + (1 - alpha) * y\<close> for the stored \<open>y\<close>.
  Neither \<open>next\<close> nor \<open>reset\<close> changes the coefficient, which is the constructor's
  argument clamped into \<open>[0.05, 0.9]\<close>: 0.0 gives 0.05 and 5.0 gives 0.9.
\<close>

theorem ema_filter_next_and_clamp:
  "(y f = None \<longrightarrow> ema_next f x = (x, f\<lparr>y := Some x\<rparr>))
   \<and> (\<forall>p. y f = Some p \<longrightarrow>
         ema_next f x = (alpha f * x + (1 - alpha f) * p,
                         f\<lparr>y := Some (alpha f * x + (1 - alpha f) * p)\<rparr>))
   \<and> alpha (snd (ema_next f x)) = alpha f
   \<and> alpha (ema_reset f) = alpha f
   \<and> alpha (new_EmaFilter a) = (if a < 0.05 then 0.05 else if 0.9 < a then 0.9 else a)
   \<and> y (new_EmaFilter a) = None
   \<and> alpha (new_EmaFilter 0.0) = 0.05
   \<and> alpha (new_EmaFilter 5.0) = 0.9"
  by (simp add: ema_next_def ema_reset_def new_EmaFilter_def clamp_def Let_def)

theorem ema_filter_next_and_clamp_witness:
  "y (new_EmaFilter 0.25) = None
   \<and> ema_next (new_EmaFilter 0.25) 8 = (8, (new_EmaFilter 0.25)\<lparr>y := Some 8\<rparr>)
   \<and> y \<lparr>alpha = 0.25, y = Some 4\<rparr> = Some 4
   \<and> ema_next \<lparr>alpha = 0.25, y = Some 4\<rparr> 8 = (5, \<lparr>alpha = 0.25, y = Some 5\<rparr>)"
  using ema_filter_next_and_clamp [where f = "new_EmaFilter 0.25" and x = 8 and a = 0]
        ema_filter_next_and_clamp [where f = "\<lparr>alpha = 0.25, y = Some 4\<rparr>" and x = 8 and a = 0]
  by (simp add: new_EmaFilter_def clamp_def)

subsection \<open>The split table\<close>


lemma observe_length: "length (observe prev origin now v) = length prev"
  by (simp add: observe_def Let_def split: option.splits)

lemma observe_set_entry:
  "i < length prev \<Longrightarrow> t (prev ! i) \<noteq> None \<Longrightarrow> observe prev origin now v ! i = prev ! i"
  by (simp add: observe_def Let_def split: option.splits)

lemma observe_iterated:
  "i < length prev \<Longrightarrow> t (prev ! i) \<noteq> None \<Longrightarrow>
   length (foldl (\<lambda>sp (origin, now, v). observe sp origin now v) prev obs) = length prev
   \<and> foldl (\<lambda>sp (origin, now, v). observe sp origin now v) prev obs ! i = prev ! i"
proof (induction obs arbitrary: prev)
  case Nil
  then show ?case by simp
next
  case (Cons ob obs)
  obtain origin now v where ob: "ob = (origin, now, v)" by (cases ob) auto
  let ?p = "observe prev origin now v"
  have l: "i < length ?p" using Cons.prems by (simp add: observe_length)
  have e: "?p ! i = prev ! i" using Cons.prems by (rule observe_set_entry)
  then have "t (?p ! i) \<noteq> None" using Cons.prems by simp
  from Cons.IH [OF l this] show ?case by (simp add: ob e observe_length)
qed

text \<open>
  Claim C3. Without a time origin the updater returns the table it was given. With the
  origin \<open>T\<close> it keeps the length of the table, writes \<open>now - T\<close> into every unset
  entry whose target is at most the smoothed speed, and leaves the other unset entries
  alone. An entry that is set comes back unchanged from one update and from any sequence
  of updates, whatever their origins, times and speeds.
\<close>

theorem observe_sets_once:
  "observe prev None now v = prev
   \<and> length (observe prev (Some T) now v) = length prev
   \<and> (\<forall>i < length prev.
        (t (prev ! i) = None \<and> target (prev ! i) \<le> v \<longrightarrow>
           observe prev (Some T) now v ! i = (prev ! i)\<lparr>t := Some (now - T)\<rparr>)
        \<and> (t (prev ! i) = None \<and> v < target (prev ! i) \<longrightarrow>
           observe prev (Some T) now v ! i = prev ! i)
        \<and> (t (prev ! i) \<noteq> None \<longrightarrow>
           (\<forall>origin. observe prev origin now v ! i = prev ! i)
           \<and> (\<forall>obs. foldl (\<lambda>sp (origin, now, v). observe sp origin now v) prev obs ! i
                       = prev ! i)))"
proof (intro conjI allI impI)
  show "observe prev None now v = prev" by (simp add: observe_def)
  show "length (observe prev (Some T) now v) = length prev" by (rule observe_length)
next
  fix i assume "i < length prev" "t (prev ! i) = None \<and> target (prev ! i) \<le> v"
  then show "observe prev (Some T) now v ! i = (prev ! i)\<lparr>t := Some (now - T)\<rparr>"
    by (simp add: observe_def Let_def)
next
  fix i assume "i < length prev" "t (prev ! i) = None \<and> v < target (prev ! i)"
  then show "observe prev (Some T) now v ! i = prev ! i"
    by (simp add: observe_def Let_def)
next
  fix i origin assume "i < length prev" "t (prev ! i) \<noteq> None"
  then show "observe prev origin now v ! i = prev ! i" by (rule observe_set_entry)
next
  fix i obs assume "i < length prev" "t (prev ! i) \<noteq> None"
  then show "foldl (\<lambda>sp (origin, now, v). observe sp origin now v) prev obs ! i = prev ! i"
    using observe_iterated by blast
qed

theorem observe_sets_once_witness:
  "observe [\<lparr>target = 40, t = None\<rparr>, \<lparr>target = 60, t = Some 500\<rparr>, \<lparr>target = 80, t = None\<rparr>]
     (Some 1000) 3000 70 ! 0 = \<lparr>target = 40, t = Some 2000\<rparr>
   \<and> observe [\<lparr>target = 40, t = None\<rparr>, \<lparr>target = 60, t = Some 500\<rparr>, \<lparr>target = 80, t = None\<rparr>]
     (Some 1000) 3000 70 ! 1 = \<lparr>target = 60, t = Some 500\<rparr>
   \<and> observe [\<lparr>target = 40, t = None\<rparr>, \<lparr>target = 60, t = Some 500\<rparr>, \<lparr>target = 80, t = None\<rparr>]
     (Some 1000) 3000 70 ! 2 = \<lparr>target = 80, t = None\<rparr>
   \<and> foldl (\<lambda>sp (origin, now, v). observe sp origin now v)
       [\<lparr>target = 40, t = None\<rparr>, \<lparr>target = 60, t = Some 500\<rparr>, \<lparr>target = 80, t = None\<rparr>]
       [(Some 1000, 3000, 30), (Some 1000, 4000, 70)] ! 1 = \<lparr>target = 60, t = Some 500\<rparr>"
  using observe_sets_once [where prev = "[\<lparr>target = 40, t = None\<rparr>, \<lparr>target = 60, t = Some 500\<rparr>, \<lparr>target = 80, t = None\<rparr>]"
      and T = 1000 and now = 3000 and v = 70]
  by (simp add: observe_def Let_def)

subsection \<open>The control handlers\<close>

lemma removeStored_subset: "set (removeStored r ws) \<subseteq> set ws"
  by (auto simp: removeStored_def split: option.splits)

lemma removeStored_gone: "map_of (removeStored (Some i) ws) i = None"
  by (induction ws) (auto simp: removeStored_def)

text \<open>
  Claim C6. After \<open>resetAll\<close>, whatever samples were delivered before, the component is
  idle (not running, not armed, no time origin), every split is unset, the maximum, the
  average, the current speed, the distance and the elapsed time are 0, the last point and
  the stored subscription are gone, and the filter holds no value, so that its next input
  is returned as it is.
\<close>

theorem resetAll_clears_everything:
  "running (resetAll (deliverAll err st locs)) = False
   \<and> armed (resetAll (deliverAll err st locs)) = False
   \<and> t0 (resetAll (deliverAll err st locs)) = None
   \<and> map t (splits (resetAll (deliverAll err st locs))) = replicate 9 None
   \<and> map target (splits (resetAll (deliverAll err st locs))) = SPEED_THRESHOLDS
   \<and> maxKmh (resetAll (deliverAll err st locs)) = 0
   \<and> avgKmh (resetAll (deliverAll err st locs)) = Some 0
   \<and> currKmh (resetAll (deliverAll err st locs)) = 0
   \<and> distanceM (resetAll (deliverAll err st locs)) = Some 0
   \<and> elapsedMs (resetAll (deliverAll err st locs)) = 0
   \<and> lastPoint (resetAll (deliverAll err st locs)) = None
   \<and> subRef (resetAll (deliverAll err st locs)) = None
   \<and> y (ema (resetAll (deliverAll err st locs))) = None
   \<and> fst (ema_next (ema (resetAll (deliverAll err st locs))) x) = x"
  by (simp add: resetAll_def freshSplits_def SPEED_THRESHOLDS_def ema_reset_def ema_next_def
      Let_def numeral_eq_Suc)

text \<open>
  What \<open>stop\<close> does to the state: it clears the two flags and the ref and leaves every
  measurement, the splits, the time origin, the filter and the last point as they were.
  The watch whose subscription the ref held is removed, so that its location objects
  change nothing any more.
\<close>

lemma stop_frame:
  "running (stop st) = False \<and> armed (stop st) = False \<and> subRef (stop st) = None
   \<and> maxKmh (stop st) = maxKmh st \<and> avgKmh (stop st) = avgKmh st
   \<and> currKmh (stop st) = currKmh st \<and> distanceM (stop st) = distanceM st
   \<and> elapsedMs (stop st) = elapsedMs st \<and> splits (stop st) = splits st
   \<and> t0 (stop st) = t0 st \<and> ema (stop st) = ema st
   \<and> lastPoint (stop st) = lastPoint st \<and> fixInfo (stop st) = fixInfo st
   \<and> hasPerm (stop st) = hasPerm st \<and> pending (stop st) = pending st"
  by (simp add: stop_def)

lemma stop_removes_stored:
  assumes "subRef st = Some i"
  shows "deliver err i loc (stop st) = stop st"
  by (simp add: deliver_def stop_def assms removeStored_gone)

lemma stop_without_stored: "subRef st = None \<Longrightarrow> watchers (stop st) = watchers st"
  by (simp add: stop_def removeStored_def)

subsection \<open>The location callback\<close>

lemmas engine_defs =
  run_def start_def startResumed_def stop_def resetAll_def removeStored_def deliver_def
  onLocation_def ema_next_def ema_reset_def
  initialState_def default_EmaFilter_def new_EmaFilter_def clamp_def KMH_def mkFix_def
  launch_def observe_def avgUpdater_def plusNaN_def STOP_KMH_def MOVING_KMH_def Let_def

text \<open>Every field of the state after one run of the callback.\<close>

lemma onLocation_fields:
  "hasPerm (onLocation err env loc st) = hasPerm st"
  "running (onLocation err env loc st) = running st"
  "armed (onLocation err env loc st) = armed st"
  "subRef (onLocation err env loc st) = subRef st"
  "watchers (onLocation err env loc st) = watchers st"
  "pending (onLocation err env loc st) = pending st"
  "nextWatch (onLocation err env loc st) = nextWatch st"
  "ema (onLocation err env loc st) = snd (ema_next (ema st) (KMH (speed (coords loc))))"
  "currKmh (onLocation err env loc st) = fst (ema_next (ema st) (KMH (speed (coords loc))))"
  "maxKmh (onLocation err env loc st) =
     max (maxKmh st) (fst (ema_next (ema st) (KMH (speed (coords loc)))))"
  "distanceM (onLocation err env loc st) =
     (case lastPoint st of
        None \<Rightarrow> distanceM st
      | Some p \<Rightarrow> plusNaN (distanceM st)
          (haversineMeters err (latitude p) (longitude p)
            (latitude (coords loc)) (longitude (coords loc))))"
  "lastPoint (onLocation err env loc st) = Some (coords loc)"
  "fixInfo (onLocation err env loc st) =
     Some \<lparr>acc = accuracy (coords loc), sat = satellitesUsed (coords loc)\<rparr>"
  "t0 (onLocation err env loc st) =
     launch env (fst (ema_next (ema st) (KMH (speed (coords loc))))) (timestamp loc) (t0 st)"
  "splits (onLocation err env loc st) =
     observe (splits st) (cap_t0 env) (timestamp loc)
       (fst (ema_next (ema st) (KMH (speed (coords loc)))))"
  "elapsedMs (onLocation err env loc st) =
     (case cap_t0 env of None \<Rightarrow> elapsedMs st | Some T \<Rightarrow> timestamp loc - T)"
  "avgKmh (onLocation err env loc st) =
     avgUpdater (cap_t0 env) (cap_distanceM env) (timestamp loc) (avgKmh st)"
  by (simp_all add: onLocation_def Let_def case_prod_beta)

text \<open>
  The parts of claim C5 that hold. When a last point exists the callback adds the
  distance from it to the new coordinate; without one it adds nothing; in both cases the
  new coordinate becomes the last point. The first sample after \<open>start\<close> finds no last
  point, so the distance is still 0 after it. As long as the distance is a number it does
  not decrease.
\<close>

lemma callback_adds_leg:
  "(\<forall>p. lastPoint st = Some p \<longrightarrow>
       distanceM (onLocation err env loc st) =
         plusNaN (distanceM st)
           (haversineMeters err (latitude p) (longitude p)
              (latitude (coords loc)) (longitude (coords loc))))
   \<and> (lastPoint st = None \<longrightarrow> distanceM (onLocation err env loc st) = distanceM st)
   \<and> lastPoint (onLocation err env loc st) = Some (coords loc)"
  by (simp add: onLocation_fields)

lemma first_sample_adds_nothing:
  assumes "hasPerm st = Some True" and "map_of (watchers (start st)) i = Some env"
  shows "distanceM (deliver err i loc (start st)) = Some 0"
    and "lastPoint (deliver err i loc (start st)) = Some (coords loc)"
proof -
  have "lastPoint (start st) = None" "distanceM (start st) = Some 0"
    using assms(1) by (simp_all add: start_def)
  then show "distanceM (deliver err i loc (start st)) = Some 0"
    and "lastPoint (deliver err i loc (start st)) = Some (coords loc)"
    using assms(2) by (simp_all add: deliver_def onLocation_fields)
qed

lemma distance_grows_while_number:
  assumes "distanceM st = Some d" and "distanceM (onLocation err env loc st) = Some e"
  shows "d \<le> e"
proof (cases "lastPoint st")
  case None
  with assms show ?thesis by (simp add: onLocation_fields)
next
  case (Some p)
  with assms obtain leg where
    leg: "haversineMeters err (latitude p) (longitude p)
            (latitude (coords loc)) (longitude (coords loc)) = Some leg"
    and e: "e = d + leg"
    by (auto simp: onLocation_fields plusNaN_def split: option.splits)
  from haversineMeters_nonneg [OF leg] e show ?thesis by simp
qed

text \<open>A distance that is NaN stays NaN with every further sample.\<close>

lemma plusNaN_NaN: "plusNaN u None = None" "plusNaN None v = None"
  by (simp_all add: plusNaN_def split: option.splits)

lemma NaN_distance_stays:
  assumes "distanceM st = None"
  shows "distanceM (deliver err i loc st) = None"
  using assms
  by (simp add: deliver_def onLocation_fields plusNaN_NaN split: option.splits)

lemma NaN_distance_stays_all:
  assumes "distanceM st = None"
  shows "distanceM (deliverAll err st locs) = None"
  using assms
proof (induction locs arbitrary: st)
  case Nil
  then show ?case by (simp add: deliverAll_def)
next
  case (Cons f locs)
  from Cons.IH [OF NaN_distance_stays [OF Cons.prems, of err "fst f" "snd f"]]
  show ?case by (simp add: deliverAll_def)
qed

text \<open>
  Claim C5 fails on the code in its last part, by the defect of claim C8. After Start,
  samples at (0, 0), (-12, -180) and (12, 0) make the distance NaN, if the radicand of
  the last leg is rounded upwards as doubles do, and it is NaN after every further
  sample: the distance does not go on without decreasing, it is lost.
\<close>

theorem distance_NaN_after_antipodal_leg:
  assumes "0 < err (- 12) (- 180) 12 0"
  shows
  "distanceM (run err [PermResult True, PressStartStop, WatchResolved 0,
       Fix 0 (mkFix 0 0 10 0), Fix 0 (mkFix (- 12) (- 180) 10 1000),
       Fix 0 (mkFix 12 0 10 2000)]) = None
   \<and> distanceM (run err [PermResult True, PressStartStop, WatchResolved 0,
       Fix 0 (mkFix 0 0 10 0), Fix 0 (mkFix (- 12) (- 180) 10 1000),
       Fix 0 (mkFix 12 0 10 2000), Fix 0 (mkFix 12 0.0001 10 3000)]) = None
   \<and> distanceM (deliverAll err
       (run err [PermResult True, PressStartStop, WatchResolved 0,
          Fix 0 (mkFix 0 0 10 0), Fix 0 (mkFix (- 12) (- 180) 10 1000),
          Fix 0 (mkFix 12 0 10 2000)]) locs) = None"
proof -
  have leg: "haversineMeters err (- 12) (- 180) 12 0 = None"
    using assms by (simp add: haversineMeters_NaN haversineA_rounded [of err] haversineA_antipode)
  have a: "distanceM (run err [PermResult True, PressStartStop, WatchResolved 0,
       Fix 0 (mkFix 0 0 10 0), Fix 0 (mkFix (- 12) (- 180) 10 1000),
       Fix 0 (mkFix 12 0 10 2000)]) = None"
    by (simp add: engine_defs leg split: option.splits)
  have b: "run err [PermResult True, PressStartStop, WatchResolved 0,
       Fix 0 (mkFix 0 0 10 0), Fix 0 (mkFix (- 12) (- 180) 10 1000),
       Fix 0 (mkFix 12 0 10 2000), Fix 0 (mkFix 12 0.0001 10 3000)]
     = deliver err 0 (mkFix 12 0.0001 10 3000)
        (run err [PermResult True, PressStartStop, WatchResolved 0,
          Fix 0 (mkFix 0 0 10 0), Fix 0 (mkFix (- 12) (- 180) 10 1000),
          Fix 0 (mkFix 12 0 10 2000)])"
    by (simp add: run_def)
  show ?thesis
    unfolding b using a by (simp add: NaN_distance_stays NaN_distance_stays_all)
qed

theorem distance_NaN_after_antipodal_leg_witness:
  "0 < antipodalRounding (- 12) (- 180) 12 0
   \<and> (\<exists>d. distanceM (run antipodalRounding [PermResult True, PressStartStop, WatchResolved 0,
         Fix 0 (mkFix 0 0 10 0), Fix 0 (mkFix (- 12) (- 180) 10 1000)]) = Some d \<and> 0 \<le> d)
   \<and> distanceM (run antipodalRounding [PermResult True, PressStartStop, WatchResolved 0,
       Fix 0 (mkFix 0 0 10 0), Fix 0 (mkFix (- 12) (- 180) 10 1000),
       Fix 0 (mkFix 12 0 10 2000)]) = None"
proof -
  have r: "haversineMeters antipodalRounding 0 0 (- 12) (- 180)
           = haversineMeters noRounding 0 0 (- 12) (- 180)"
    by (simp add: haversineMeters_def haversineA_def antipodalRounding_def noRounding_def)
  obtain d where d: "haversineMeters noRounding 0 0 (- 12) (- 180) = Some d" "0 \<le> d"
    using haversineMeters_exact [of 0 0 "- 12" "- 180"] by blast
  have "distanceM (run antipodalRounding [PermResult True, PressStartStop, WatchResolved 0,
         Fix 0 (mkFix 0 0 10 0), Fix 0 (mkFix (- 12) (- 180) 10 1000)]) = Some d"
    by (simp add: engine_defs r d)
  with d(2) show ?thesis
    using distance_NaN_after_antipodal_leg [where err = antipodalRounding and locs = "[]"]
    by (simp add: antipodalRounding_def)
qed

subsection \<open>Sessions as the user interface allows them\<close>

lemma traceInv_initialState: "traceInv initialState"
  by (simp add: traceInv_def initialState_def default_EmaFilter_def new_EmaFilter_def)

lemma traceInv_onLocation:
  assumes "traceInv st" and "map_of (watchers st) i = Some env"
  shows "traceInv (onLocation err env loc st)"
proof -
  from assms(2) have m: "(i, env) \<in> set (watchers st)" by (rule map_of_SomeD)
  with assms(1) have env: "\<not> cap_armed env" "cap_t0 env = None"
    by (auto simp: traceInv_def list_all_iff)
  from m assms(1) have perm: "hasPerm st = Some True"
    by (auto simp: traceInv_def)
  from assms(1) show ?thesis
    by (simp add: traceInv_def onLocation_fields launch_def observe_def avgUpdater_def env perm)
qed

lemma traceInv_step: "traceInv st \<Longrightarrow> traceInv (step err st e)"
proof (cases e)
  case (PermResult g)
  assume "traceInv st" then show ?thesis
    by (auto simp: PermResult traceInv_def)
next
  case PressStartStop
  assume "traceInv st" then show ?thesis
    using removeStored_subset [of "subRef st" "watchers st"]
    by (auto simp: PressStartStop traceInv_def start_def stop_def ema_reset_def list_all_iff)
next
  case PressReset
  assume "traceInv st" then show ?thesis
    using removeStored_subset [of "subRef st" "watchers st"]
    by (auto simp: PressReset traceInv_def resetAll_def ema_reset_def list_all_iff)
next
  case (WatchResolved i)
  assume "traceInv st" then show ?thesis
    by (auto simp: WatchResolved traceInv_def startResumed_def)
next
  case (Fix i loc)
  assume "traceInv st" then show ?thesis
    by (cases "map_of (watchers st) i") (simp_all add: Fix deliver_def traceInv_onLocation)
qed

lemma traceInv_run: "traceInv (run err evs)"
proof (induction evs rule: rev_induct)
  case Nil
  show ?case by (simp add: run_def traceInv_initialState)
next
  case (snoc e evs)
  then show ?case by (simp add: run_def traceInv_step)
qed

text \<open>
  On every trace the time origin stays unset, the splits stay empty, and the average and
  the elapsed time stay 0.
\<close>

lemma timer_never_starts:
  "t0 (run err evs) = None \<and> splits (run err evs) = freshSplits
   \<and> avgKmh (run err evs) = Some 0 \<and> elapsedMs (run err evs) = 0"
  using traceInv_run [of err evs] by (simp add: traceInv_def)

lemma start_granted:
  assumes "hasPerm st = Some True"
  shows "start st =
     st\<lparr>armed := True, running := True, splits := freshSplits,
        maxKmh := 0, avgKmh := Some 0, currKmh := 0, distanceM := Some 0, elapsedMs := 0,
        ema := ema_reset (ema st), lastPoint := None, t0 := None,
        watchers := watchers st @
          [(nextWatch st, \<lparr>cap_armed = armed st, cap_t0 = t0 st,
                            cap_distanceM = distanceM st\<rparr>)],
        pending := pending st @ [nextWatch st],
        nextWatch := Suc (nextWatch st)\<rparr>"
  using assms by (simp add: start_def)

lemma start_not_granted: "hasPerm st \<noteq> Some True \<Longrightarrow> start st = st"
  by (simp add: start_def)

lemma start_after_run:
  "splits (start (run err evs)) = freshSplits \<and> maxKmh (start (run err evs)) = 0
   \<and> avgKmh (start (run err evs)) = Some 0 \<and> currKmh (start (run err evs)) = 0
   \<and> distanceM (start (run err evs)) = Some 0 \<and> elapsedMs (start (run err evs)) = 0
   \<and> t0 (start (run err evs)) = None \<and> lastPoint (start (run err evs)) = None
   \<and> y (ema (start (run err evs))) = None"
proof (cases "hasPerm (run err evs) = Some True")
  case True
  then show ?thesis by (simp add: start_granted ema_reset_def)
next
  case False
  with traceInv_run [of err evs] show ?thesis
    by (simp add: start_not_granted traceInv_def)
qed

text \<open>
  Claim C10. With the permission granted, \<open>start\<close> arms and, before any sample arrives,
  installs the fresh split table, sets the maximum, the average, the current speed, the
  distance and the elapsed time to 0, unsets the time origin and the last point, and
  empties the filter, so that its next input is returned as it is. The button that calls
  \<open>start\<close> exists only with the permission granted; in a state reached without it
  nothing has been measured, so the same fields hold these values after \<open>start\<close> in
  every state the component can reach.
\<close>

theorem start_resets_measurements:
  "(hasPerm st = Some True \<longrightarrow>
      armed (start st) \<and> running (start st)
      \<and> splits (start st) = freshSplits \<and> map t (splits (start st)) = replicate 9 None
      \<and> maxKmh (start st) = 0 \<and> avgKmh (start st) = Some 0 \<and> currKmh (start st) = 0
      \<and> distanceM (start st) = Some 0 \<and> elapsedMs (start st) = 0
      \<and> t0 (start st) = None \<and> lastPoint (start st) = None
      \<and> y (ema (start st)) = None \<and> fst (ema_next (ema (start st)) x) = x)
   \<and> splits (start (run err evs)) = freshSplits \<and> maxKmh (start (run err evs)) = 0
   \<and> avgKmh (start (run err evs)) = Some 0 \<and> currKmh (start (run err evs)) = 0
   \<and> distanceM (start (run err evs)) = Some 0 \<and> elapsedMs (start (run err evs)) = 0
   \<and> t0 (start (run err evs)) = None \<and> lastPoint (start (run err evs)) = None
   \<and> y (ema (start (run err evs))) = None"
proof (rule conjI)
  show "hasPerm st = Some True \<longrightarrow>
      armed (start st) \<and> running (start st)
      \<and> splits (start st) = freshSplits \<and> map t (splits (start st)) = replicate 9 None
      \<and> maxKmh (start st) = 0 \<and> avgKmh (start st) = Some 0 \<and> currKmh (start st) = 0
      \<and> distanceM (start st) = Some 0 \<and> elapsedMs (start st) = 0
      \<and> t0 (start st) = None \<and> lastPoint (start st) = None
      \<and> y (ema (start st)) = None \<and> fst (ema_next (ema (start st)) x) = x"
    by (simp add: start_granted ema_reset_def ema_next_def Let_def freshSplits_def
        SPEED_THRESHOLDS_def numeral_eq_Suc)
qed (rule start_after_run)

theorem start_resets_measurements_witness:
  "hasPerm (run noRounding [PermResult True, PressStartStop, WatchResolved 0,
              Fix 0 (mkFix 0 0 10 1000), PressStartStop]) = Some True
   \<and> maxKmh (run noRounding [PermResult True, PressStartStop, WatchResolved 0,
              Fix 0 (mkFix 0 0 10 1000), PressStartStop]) = 36
   \<and> \<not> running (run noRounding [PermResult True, PressStartStop, WatchResolved 0,
              Fix 0 (mkFix 0 0 10 1000), PressStartStop])
   \<and> y (ema (run noRounding [PermResult True, PressStartStop, WatchResolved 0,
              Fix 0 (mkFix 0 0 10 1000), PressStartStop])) = Some 36
   \<and> maxKmh (start (run noRounding [PermResult True, PressStartStop, WatchResolved 0,
              Fix 0 (mkFix 0 0 10 1000), PressStartStop])) = 0
   \<and> y (ema (start (run noRounding [PermResult True, PressStartStop, WatchResolved 0,
              Fix 0 (mkFix 0 0 10 1000), PressStartStop]))) = None
   \<and> armed (start (run noRounding [PermResult True, PressStartStop, WatchResolved 0,
              Fix 0 (mkFix 0 0 10 1000), PressStartStop]))"
  using start_resets_measurements [where st = "run noRounding [PermResult True, PressStartStop,
      WatchResolved 0, Fix 0 (mkFix 0 0 10 1000), PressStartStop]" and x = 0 and evs = "[]"
      and err = noRounding]
  by (simp add: engine_defs)

subsection \<open>Stopping\<close>

text \<open>
  Claim C9 fails on the code. \<open>stop\<close> removes the subscription that the ref holds, and
  \<open>start\<close> puts it there only when the promise of the watch has resolved. With Start
  pressed and Stop pressed before that, the ref is empty, \<open>stop\<close> removes nothing, and the
  watch stays registered: the component is not running, and the next location object
  still raises the current and the maximum speed from 0 to 36 km/h and sets the last
  point. The subscription that arrives afterwards is stored although nothing is running.
\<close>

theorem stop_before_watch_resolves:
  "\<not> running (run err [PermResult True, PressStartStop, PressStartStop])
   \<and> subRef (run err [PermResult True, PressStartStop, PressStartStop]) = None
   \<and> map fst (watchers (run err [PermResult True, PressStartStop, PressStartStop])) = [0]
   \<and> currKmh (run err [PermResult True, PressStartStop, PressStartStop]) = 0
   \<and> maxKmh (run err [PermResult True, PressStartStop, PressStartStop]) = 0
   \<and> lastPoint (run err [PermResult True, PressStartStop, PressStartStop]) = None
   \<and> \<not> running (run err [PermResult True, PressStartStop, PressStartStop, WatchResolved 0,
                   Fix 0 (mkFix 0 0 10 1000)])
   \<and> subRef (run err [PermResult True, PressStartStop, PressStartStop, WatchResolved 0,
                   Fix 0 (mkFix 0 0 10 1000)]) = Some 0
   \<and> currKmh (run err [PermResult True, PressStartStop, PressStartStop, WatchResolved 0,
                   Fix 0 (mkFix 0 0 10 1000)]) = 36
   \<and> maxKmh (run err [PermResult True, PressStartStop, PressStartStop, WatchResolved 0,
                   Fix 0 (mkFix 0 0 10 1000)]) = 36
   \<and> lastPoint (run err [PermResult True, PressStartStop, PressStartStop, WatchResolved 0,
                   Fix 0 (mkFix 0 0 10 1000)]) = Some (coords (mkFix 0 0 10 1000))"
  by (simp add: engine_defs)

subsection \<open>Samples out of order\<close>

text \<open>
  Claim C1, as stated, fails: the callback compares no timestamps. After \<open>start\<close> and a
  sample at 1000 ms with speed 0, a sample at 500 ms with speed 10 m/s raises the current
  speed from 0 to 9 km/h.
\<close>

theorem late_sample_changes_state:
  "\<forall>err. timestamp (mkFix 0 0 10 500) \<le> timestamp (mkFix 0 0 0 1000)
   \<and> currKmh (run err [PermResult True, PressStartStop, WatchResolved 0,
                        Fix 0 (mkFix 0 0 0 1000)]) = 0
   \<and> currKmh (run err [PermResult True, PressStartStop, WatchResolved 0,
                        Fix 0 (mkFix 0 0 0 1000), Fix 0 (mkFix 0 0 10 500)]) = 9
   \<and> deliver err 0 (mkFix 0 0 10 500)
        (run err [PermResult True, PressStartStop, WatchResolved 0, Fix 0 (mkFix 0 0 0 1000)])
       \<noteq> run err [PermResult True, PressStartStop, WatchResolved 0, Fix 0 (mkFix 0 0 0 1000)]"
proof
  fix err
  have a: "currKmh (run err [PermResult True, PressStartStop, WatchResolved 0,
                            Fix 0 (mkFix 0 0 0 1000)]) = 0"
    by (simp add: engine_defs)
  have b: "currKmh (run err [PermResult True, PressStartStop, WatchResolved 0,
                            Fix 0 (mkFix 0 0 0 1000), Fix 0 (mkFix 0 0 10 500)]) = 9"
    by (simp add: engine_defs)
  have c: "run err [PermResult True, PressStartStop, WatchResolved 0,
                    Fix 0 (mkFix 0 0 0 1000), Fix 0 (mkFix 0 0 10 500)]
           = deliver err 0 (mkFix 0 0 10 500)
               (run err [PermResult True, PressStartStop, WatchResolved 0,
                         Fix 0 (mkFix 0 0 0 1000)])"
    by (simp add: run_def)
  have "currKmh (deliver err 0 (mkFix 0 0 10 500)
                   (run err [PermResult True, PressStartStop, WatchResolved 0,
                             Fix 0 (mkFix 0 0 0 1000)]))
        \<noteq> currKmh (run err [PermResult True, PressStartStop, WatchResolved 0,
                             Fix 0 (mkFix 0 0 0 1000)])"
    unfolding c [symmetric] a b by simp
  then have "deliver err 0 (mkFix 0 0 10 500)
                (run err [PermResult True, PressStartStop, WatchResolved 0,
                          Fix 0 (mkFix 0 0 0 1000)])
             \<noteq> run err [PermResult True, PressStartStop, WatchResolved 0,
                         Fix 0 (mkFix 0 0 0 1000)]"
    by auto
  with a b show "timestamp (mkFix 0 0 10 500) \<le> timestamp (mkFix 0 0 0 1000)
   \<and> currKmh (run err [PermResult True, PressStartStop, WatchResolved 0,
                        Fix 0 (mkFix 0 0 0 1000)]) = 0
   \<and> currKmh (run err [PermResult True, PressStartStop, WatchResolved 0,
                        Fix 0 (mkFix 0 0 0 1000), Fix 0 (mkFix 0 0 10 500)]) = 9
   \<and> deliver err 0 (mkFix 0 0 10 500)
        (run err [PermResult True, PressStartStop, WatchResolved 0, Fix 0 (mkFix 0 0 0 1000)])
       \<noteq> run err [PermResult True, PressStartStop, WatchResolved 0, Fix 0 (mkFix 0 0 0 1000)]"
    by (simp add: mkFix_def)
qed

text \<open>
  Claim C1, amended. A sample whose timestamp is not later than the one before it is
  processed like any other sample; the proof never looks at the timestamps. It leaves
  the flags \<open>running\<close> and \<open>armed\<close> alone; it goes through the filter, updates the
  current and the maximum speed, adds its leg to the distance and becomes the last point.
  When the closure holds no time origin, the splits, the elapsed time and the average are
  unchanged.
\<close>

theorem late_sample_is_processed:
  assumes "timestamp loc2 \<le> timestamp loc1"
  shows
  "running (onLocation err env loc2 (onLocation err env loc1 st))
     = running (onLocation err env loc1 st)
   \<and> armed (onLocation err env loc2 (onLocation err env loc1 st))
     = armed (onLocation err env loc1 st)
   \<and> currKmh (onLocation err env loc2 (onLocation err env loc1 st)) =
       alpha (ema st) * KMH (speed (coords loc2))
       + (1 - alpha (ema st)) * currKmh (onLocation err env loc1 st)
   \<and> maxKmh (onLocation err env loc2 (onLocation err env loc1 st)) =
       max (maxKmh (onLocation err env loc1 st))
           (currKmh (onLocation err env loc2 (onLocation err env loc1 st)))
   \<and> distanceM (onLocation err env loc2 (onLocation err env loc1 st)) =
       plusNaN (distanceM (onLocation err env loc1 st))
         (haversineMeters err (latitude (coords loc1)) (longitude (coords loc1))
                              (latitude (coords loc2)) (longitude (coords loc2)))
   \<and> lastPoint (onLocation err env loc2 (onLocation err env loc1 st)) = Some (coords loc2)
   \<and> (cap_t0 env = None \<longrightarrow>
         splits (onLocation err env loc2 (onLocation err env loc1 st))
           = splits (onLocation err env loc1 st)
         \<and> elapsedMs (onLocation err env loc2 (onLocation err env loc1 st))
             = elapsedMs (onLocation err env loc1 st)
         \<and> avgKmh (onLocation err env loc2 (onLocation err env loc1 st))
             = avgKmh (onLocation err env loc1 st))"
  by (simp add: onLocation_fields ema_next_def Let_def observe_def avgUpdater_def)

theorem late_sample_is_processed_witness:
  "timestamp (mkFix 0 0 10 500) \<le> timestamp (mkFix 0 0 0 1000)
   \<and> currKmh (onLocation noRounding \<lparr>cap_armed = False, cap_t0 = None, cap_distanceM = Some 0\<rparr>
        (mkFix 0 0 10 500)
        (onLocation noRounding \<lparr>cap_armed = False, cap_t0 = None, cap_distanceM = Some 0\<rparr>
           (mkFix 0 0 0 1000) (run noRounding [PermResult True, PressStartStop]))) = 9
   \<and> maxKmh (onLocation noRounding \<lparr>cap_armed = False, cap_t0 = None, cap_distanceM = Some 0\<rparr>
        (mkFix 0 0 10 500)
        (onLocation noRounding \<lparr>cap_armed = False, cap_t0 = None, cap_distanceM = Some 0\<rparr>
           (mkFix 0 0 0 1000) (run noRounding [PermResult True, PressStartStop]))) = 9
   \<and> avgKmh (onLocation noRounding \<lparr>cap_armed = False, cap_t0 = None, cap_distanceM = Some 0\<rparr>
        (mkFix 0 0 10 500)
        (onLocation noRounding \<lparr>cap_armed = False, cap_t0 = None, cap_distanceM = Some 0\<rparr>
           (mkFix 0 0 0 1000) (run noRounding [PermResult True, PressStartStop]))) = Some 0"
  using late_sample_is_processed [where ?loc2.0 = "mkFix 0 0 10 500" and ?loc1.0 = "mkFix 0 0 0 1000"
      and env = "\<lparr>cap_armed = False, cap_t0 = None, cap_distanceM = Some 0\<rparr>"
      and st = "run noRounding [PermResult True, PressStartStop]" and err = noRounding]
  by (simp add: engine_defs)

subsection \<open>The launch and the average speed\<close>

text \<open>
  Relative to its closure the launch logic is the hysteresis of the documentation: an
  armed closure without time origin sets \<open>t0\<close> exactly when the smoothed speed reaches
  \<open>MOVING_KMH\<close>. A closure that is not armed never sets it.
\<close>

lemma launch_by_closure:
  "cap_armed env \<Longrightarrow> cap_t0 env = None \<Longrightarrow>
   launch env v now cur = (if MOVING_KMH \<le> v then Some now else cur)"
  by (simp add: launch_def STOP_KMH_def MOVING_KMH_def)

lemma launch_unarmed: "\<not> cap_armed env \<Longrightarrow> launch env v now cur = cur"
  by (simp add: launch_def)

text \<open>
  Likewise the updater of the average computes the quotient of the documentation, with
  its guard, from the origin and the distance it is given.
\<close>

lemma avgUpdater_by_closure:
  "avgUpdater (Some T) (Some dM) now cur =
     Some (if now \<le> T then 0 else (dM / 1000) / ((now - T) / 3600000))"
  by (simp add: avgUpdater_def Let_def)

text \<open>
  Claim C2 fails on the code. After the permission is granted and Start is pressed, the
  state is armed without time origin. The first sample, at 10/9 m/s, gives the smoothed
  speed 4 km/h, which is at least \<open>MOVING_KMH\<close>; yet \<open>t0\<close> stays unset, because the
  callback tests the \<open>armed\<close> of its closure, which is the value from before \<open>start\<close>
  set it.
\<close>

theorem launch_never_fires_after_start:
  "armed (run err [PermResult True, PressStartStop, WatchResolved 0])
   \<and> t0 (run err [PermResult True, PressStartStop, WatchResolved 0]) = None
   \<and> currKmh (run err [PermResult True, PressStartStop, WatchResolved 0,
                        Fix 0 (mkFix 0 0 (10 / 9) 1000)]) = 4
   \<and> MOVING_KMH \<le> 4
   \<and> t0 (run err [PermResult True, PressStartStop, WatchResolved 0,
                   Fix 0 (mkFix 0 0 (10 / 9) 1000)]) = None"
  by (simp add: engine_defs)

text \<open>
  Claim C4 fails on the code. After the permission is granted and Start is pressed, three
  samples arrive, 0.0001 degrees of longitude apart on the equator, at 0, 1000 and 2000 ms.
  The smoothed speed is 5 km/h at the second one. After the third one the component is
  running and the distance is positive, but \<open>t0\<close> is unset and the average is 0: the
  updater reads the \<open>t0\<close> and \<open>distanceM\<close> of the closure, not those of the state.
\<close>

theorem average_stays_zero_after_launch_speed:
  "running (run err [PermResult True, PressStartStop, WatchResolved 0, Fix 0 (mkFix 0 0 0 0),
                     Fix 0 (mkFix 0 0.0001 (50 / 9) 1000), Fix 0 (mkFix 0 0.0002 (50 / 9) 2000)])
   \<and> currKmh (run err [PermResult True, PressStartStop, WatchResolved 0, Fix 0 (mkFix 0 0 0 0),
                        Fix 0 (mkFix 0 0.0001 (50 / 9) 1000)]) = 5
   \<and> t0 (run err [PermResult True, PressStartStop, WatchResolved 0, Fix 0 (mkFix 0 0 0 0),
                   Fix 0 (mkFix 0 0.0001 (50 / 9) 1000), Fix 0 (mkFix 0 0.0002 (50 / 9) 2000)])
       = None
   \<and> (\<exists>d. distanceM (run noRounding [PermResult True, PressStartStop, WatchResolved 0,
                   Fix 0 (mkFix 0 0 0 0), Fix 0 (mkFix 0 0.0001 (50 / 9) 1000),
                   Fix 0 (mkFix 0 0.0002 (50 / 9) 2000)]) = Some d \<and> 0 < d)
   \<and> avgKmh (run err [PermResult True, PressStartStop, WatchResolved 0, Fix 0 (mkFix 0 0 0 0),
                   Fix 0 (mkFix 0 0.0001 (50 / 9) 1000), Fix 0 (mkFix 0 0.0002 (50 / 9) 2000)])
       = Some 0"
proof -
  have "\<exists>d. haversineMeters noRounding 0 0 0 (1 / 10000) = Some d \<and> 0 < d"
    by (rule equator_leg_pos) simp_all
  then obtain a where a: "haversineMeters noRounding 0 0 0 (1 / 10000) = Some a" "0 < a"
    by blast
  have "\<exists>d. haversineMeters noRounding 0 (1 / 10000) 0 (1 / 5000) = Some d \<and> 0 < d"
    by (rule equator_leg_pos) simp_all
  then obtain b where b: "haversineMeters noRounding 0 (1 / 10000) 0 (1 / 5000) = Some b" "0 < b"
    by blast
  have "distanceM (run noRounding [PermResult True, PressStartStop, WatchResolved 0,
                   Fix 0 (mkFix 0 0 0 0), Fix 0 (mkFix 0 0.0001 (50 / 9) 1000),
                   Fix 0 (mkFix 0 0.0002 (50 / 9) 2000)]) = Some (a + b)"
    by (simp add: engine_defs a b)
  with a(2) b(2) have d: "\<exists>d. distanceM (run noRounding [PermResult True, PressStartStop,
                   WatchResolved 0, Fix 0 (mkFix 0 0 0 0), Fix 0 (mkFix 0 0.0001 (50 / 9) 1000),
                   Fix 0 (mkFix 0 0.0002 (50 / 9) 2000)]) = Some d \<and> 0 < d"
    by simp
  show ?thesis
    by (intro conjI d) (simp_all add: engine_defs)
qed

end
